theory Spec2Isabelle
  imports
    Complex_Main
    "HOL-Library.Product_Lexorder"
    "HOL-Library.List_Lexorder"
    "HOL-Library.Char_ord"
begin

section \<open>The table \<open>ducktube.main.video_frames\<close> and the player's three queries\<close>

text \<open>
  The player (\<open>src/frontend/src/MotherDuckVideoPlayer.js\<close>) reads one table.  Its columns
  are those of the row schema: \<open>frame_id\<close>, \<open>x\<close>, \<open>y\<close> and \<open>video_url\<close> are always present,
  the payload columns \<open>value\<close>, \<open>r\<close>, \<open>g\<close>, \<open>b\<close> may be NULL.  Column values are integers
  of whatever width the table has; the queries cast them to the 32-bit \<open>INTEGER\<close>.
\<close>

text \<open>
  How a call can fail: a method that does not exist (\<open>TypeError\<close>), a store that does not
  answer or does not know a name in the query (\<open>StoreError\<close>), a query text that does not
  parse (\<open>ParserError\<close>), a value that does not fit the type it is cast to
  (\<open>ConversionError\<close>).
\<close>

datatype js_error = TypeError | StoreError | ParserError | ConversionError

record db_row =
  frame_id :: int
  row_x :: int
  row_y :: int
  row_value :: "int option"
  row_r :: "int option"
  row_g :: "int option"
  row_b :: "int option"
  video_url :: string

text \<open>One row of the result of the frame query (\<open>loadFrame\<close>, lines 100-112).\<close>

record pixel =
  px_x :: int
  px_y :: int
  px_value :: "int option"
  px_r :: "int option"
  px_g :: "int option"
  px_b :: "int option"

text \<open>The one row of the result of the metadata query (\<open>loadVideoMetadata\<close>, lines 64-76).\<close>

record meta_row =
  meta_width :: "int option"
  meta_height :: "int option"
  meta_total_frames :: int
  meta_mode :: string

text \<open>SQL \<open>MAX\<close>: NULLs are ignored, and the maximum of no value is NULL.\<close>

fun sql_max :: "int option list \<Rightarrow> int option" where
  "sql_max [] = None"
| "sql_max (None # vs) = sql_max vs"
| "sql_max (Some v # vs) = (case sql_max vs of None \<Rightarrow> Some v | Some m \<Rightarrow> Some (max v m))"

text \<open>\<open>e + 1\<close> in SQL: NULL stays NULL.\<close>

definition sql_plus_one :: "int option \<Rightarrow> int option" where
  "sql_plus_one v = (case v of None \<Rightarrow> None | Some n \<Rightarrow> Some (n + 1))"

text \<open>\<open>COUNT(DISTINCT e)\<close> over a column without NULLs.\<close>

definition sql_count_distinct :: "int list \<Rightarrow> int" where
  "sql_count_distinct vs = int (length (remdups vs))"

text \<open>
  A \<open>WHEN\<close> condition holds only when it evaluates to TRUE: \<open>MAX(value) <= 1\<close> is NULL,
  hence not taken, when no value is present.
\<close>

definition sql_when_le :: "int option \<Rightarrow> int \<Rightarrow> bool" where
  "sql_when_le v n = (case v of None \<Rightarrow> False | Some m \<Rightarrow> m \<le> n)"

text \<open>
  The url is pasted into the query text between two quotes (\<open>'${videoUrl}'\<close>, line 75, and
  \<open>'${selectedVideo}'\<close>, line 110).  Inside an SQL string literal a doubled quote stands for
  one quote.  A quote that is not doubled ends the literal inside the url; the text after
  it does not continue the query, and the parser rejects it (a url that is itself written
  as SQL is outside this reading).  So the pasted text denotes a string, or nothing.
\<close>

definition sql_quote :: char where
  "sql_quote = CHR 0x27"

fun sql_string_literal :: "string \<Rightarrow> string option" where
  "sql_string_literal [] = Some []"
| "sql_string_literal [c] = (if c = sql_quote then None else Some [c])"
| "sql_string_literal (c # d # cs) =
     (if c = sql_quote then
        (if d = sql_quote then map_option (Cons sql_quote) (sql_string_literal cs) else None)
      else map_option (Cons c) (sql_string_literal (d # cs)))"

text \<open>
  \<open>CAST(e AS INTEGER)\<close>: a value outside the 32-bit range is a conversion error, a value
  inside it and NULL are left as they are.
\<close>

definition in_INTEGER :: "int \<Rightarrow> bool" where
  "in_INTEGER v = (- 2147483648 \<le> v \<and> v \<le> 2147483647)"

definition castable :: "int option \<Rightarrow> bool" where
  "castable v = (case v of None \<Rightarrow> True | Some n \<Rightarrow> in_INTEGER n)"

text \<open>
  The metadata query, lines 64-76.  An aggregate query without \<open>GROUP BY\<close> returns exactly
  one row; the query fails as a whole when its text does not parse or one of its three
  casts fails.
\<close>

definition metadata_query :: "db_row list \<Rightarrow> string \<Rightarrow> js_error + meta_row" where
  "metadata_query tbl videoUrl =
     (case sql_string_literal videoUrl of
        None \<Rightarrow> Inl ParserError
      | Some literal \<Rightarrow>
          let rows = filter (\<lambda>r. video_url r = literal) tbl;
              w = sql_plus_one (sql_max (map (\<lambda>r. Some (row_x r)) rows));
              h = sql_plus_one (sql_max (map (\<lambda>r. Some (row_y r)) rows));
              n = sql_count_distinct (map frame_id rows)
          in if castable w \<and> castable h \<and> in_INTEGER n then
               Inr \<lparr> meta_width = w, meta_height = h, meta_total_frames = n,
                     meta_mode =
                       (if sql_max (map row_r rows) \<noteq> None then ''color''
                        else if sql_when_le (sql_max (map row_value rows)) 1 then ''binary''
                        else ''grayscale'') \<rparr>
             else Inl ConversionError)"

text \<open>
  The frame query, lines 100-112: the rows of one frame of one video, by \<open>y\<close>, then \<open>x\<close>.
  It casts the six columns it selects, and fails as a whole when a cast fails.
\<close>

definition to_pixel :: "db_row \<Rightarrow> pixel" where
  "to_pixel r =
     \<lparr> px_x = row_x r, px_y = row_y r, px_value = row_value r,
       px_r = row_r r, px_g = row_g r, px_b = row_b r \<rparr>"

definition row_castable :: "db_row \<Rightarrow> bool" where
  "row_castable r =
     (in_INTEGER (row_x r) \<and> in_INTEGER (row_y r) \<and> castable (row_value r) \<and>
      castable (row_r r) \<and> castable (row_g r) \<and> castable (row_b r))"

definition frame_query :: "db_row list \<Rightarrow> int \<Rightarrow> string \<Rightarrow> js_error + pixel list" where
  "frame_query tbl frameId selectedVideo =
     (case sql_string_literal selectedVideo of
        None \<Rightarrow> Inl ParserError
      | Some literal \<Rightarrow>
          let rows = filter (\<lambda>r. frame_id r = frameId \<and> video_url r = literal) tbl
          in if list_all row_castable rows then
               Inr (map to_pixel (sort_key (\<lambda>r. (row_y r, row_x r)) rows))
             else Inl ConversionError)"

text \<open>The video list query, lines 42-46, which has no parameter and no cast.\<close>

definition video_list_query :: "db_row list \<Rightarrow> js_error + string list" where
  "video_list_query tbl = Inr (sort (remdups (map video_url tbl)))"

section \<open>JavaScript values, the store connection and the browser\<close>

text \<open>A JavaScript number that holds an integer, or \<open>NaN\<close> (what \<open>n % 0\<close> gives).\<close>

datatype jsnum = Num int | NaN

fun js_add :: "jsnum \<Rightarrow> jsnum \<Rightarrow> jsnum" where
  "js_add (Num a) (Num b) = Num (a + b)"
| "js_add _ _ = NaN"

text \<open>The operator \<open>%\<close>: the result has the sign of the dividend, and \<open>n % 0\<close> is \<open>NaN\<close>.\<close>

fun js_rem :: "jsnum \<Rightarrow> jsnum \<Rightarrow> jsnum" where
  "js_rem (Num a) (Num b) = (if b = 0 then NaN else Num (sgn a * (\<bar>a\<bar> mod \<bar>b\<bar>)))"
| "js_rem _ _ = NaN"

text \<open>\<open>null\<close> in arithmetic is \<open>0\<close> (\<open>canvasSize.width * 4\<close> when the width is \<open>null\<close>).\<close>

definition js_number :: "int option \<Rightarrow> int" where
  "js_number v = (case v of None \<Rightarrow> 0 | Some n \<Rightarrow> n)"

text \<open>
  An \<open>MDConnection\<close>: the table behind it, and whether its queries are answered.  A query
  on a connection that is not \<open>online\<close> rejects, which is the store failure of the player.
\<close>

record connection =
  table :: "db_row list"
  online :: bool

text \<open>
  What a function of the component can be handed as an argument.  \<open>handleVideoSelect\<close>
  passes a string where \<open>loadVideoMetadata\<close> expects the connection, and nothing where it
  expects the url, so both parameters range over these values.
\<close>

datatype js_arg = Undefined | JString string | JConnection connection

text \<open>\<open>!v\<close>: \<open>undefined\<close> and the empty string are falsy, an object is truthy.\<close>

fun js_not :: "js_arg \<Rightarrow> bool" where
  "js_not Undefined = True"
| "js_not (JString s) = (s = [])"
| "js_not (JConnection c) = False"

text \<open>\<open>${v}\<close> inside a template literal.\<close>

fun js_template :: "js_arg \<Rightarrow> string" where
  "js_template Undefined = ''undefined''"
| "js_template (JString s) = s"
| "js_template (JConnection c) = ''[object Object]''"

text \<open>
  \<open>connection.evaluateQuery(q)\<close> and the \<open>await\<close> of its result: a string has no method
  \<open>evaluateQuery\<close>, so the call throws a \<open>TypeError\<close>; a connection answers with what the
  query comes to on its table, or rejects.
\<close>

definition evaluateQuery :: "js_arg \<Rightarrow> (db_row list \<Rightarrow> js_error + 'a) \<Rightarrow> js_error + 'a" where
  "evaluateQuery connection q =
     (case connection of
        JConnection c \<Rightarrow> if online c then q (table c) else Inl StoreError
      | _ \<Rightarrow> Inl TypeError)"

text \<open>
  The frame query with \<open>${frameId}\<close> interpolated: \<open>NaN\<close> is no column of the table, so the
  query is rejected.
\<close>

definition evaluate_frame_query :: "connection \<Rightarrow> jsnum \<Rightarrow> string \<Rightarrow> js_error + pixel list" where
  "evaluate_frame_query c frameId selectedVideo =
     (case frameId of
        NaN \<Rightarrow> Inl StoreError
      | Num n \<Rightarrow> evaluateQuery (JConnection c) (\<lambda>tbl. frame_query tbl n selectedVideo))"

subsection \<open>The canvas\<close>

text \<open>
  A canvas pixel is transparent until something is painted on it.  A CSS colour is kept as
  its three channels: \<open>#FFFFFF\<close> is \<open>Rgb 255 255 255\<close>, \<open>#000000\<close> is \<open>Rgb 0 0 0\<close>.
\<close>

datatype colour = Transparent | Rgb int int int

definition hex_FFFFFF :: colour where
  "hex_FFFFFF = Rgb 255 255 255"

definition hex_000000 :: colour where
  "hex_000000 = Rgb 0 0 0"

definition css_channel :: "int \<Rightarrow> int" where
  "css_channel v = max 0 (min 255 v)"

text \<open>
  The string \<open>rgb(${r},${g},${b})\<close> as a CSS colour: channels are clamped to \<open>0..255\<close>, and
  with a \<open>null\<close> interpolated the string is no colour at all.
\<close>

fun css_rgb :: "int option \<Rightarrow> int option \<Rightarrow> int option \<Rightarrow> colour option" where
  "css_rgb (Some r) (Some g) (Some b) = Some (Rgb (css_channel r) (css_channel g) (css_channel b))"
| "css_rgb _ _ _ = None"

text \<open>
  The 2D context of the canvas: the current fill style and the bitmap, addressed by device
  pixel \<open>(column, row)\<close>.  The size of the bitmap is that of the canvas element and is
  passed to \<open>fillRect\<close>.
\<close>

record canvas2d =
  fillStyle :: colour
  bitmap :: "int \<times> int \<Rightarrow> colour"

definition new_canvas :: canvas2d where
  "new_canvas = \<lparr> fillStyle = hex_000000, bitmap = (\<lambda>p. Transparent) \<rparr>"

text \<open>Assigning \<open>ctx.fillStyle\<close>: a string that is no colour is ignored.\<close>

definition set_fillStyle :: "colour option \<Rightarrow> canvas2d \<Rightarrow> canvas2d" where
  "set_fillStyle c ctx = (case c of None \<Rightarrow> ctx | Some v \<Rightarrow> ctx\<lparr>fillStyle := v\<rparr>)"

definition on_canvas :: "int \<Rightarrow> int \<Rightarrow> int \<times> int \<Rightarrow> bool" where
  "on_canvas cw ch p = (0 \<le> fst p \<and> fst p < cw \<and> 0 \<le> snd p \<and> snd p < ch)"

definition in_rect :: "int \<Rightarrow> int \<Rightarrow> int \<Rightarrow> int \<Rightarrow> int \<times> int \<Rightarrow> bool" where
  "in_rect x y w h p =
     (min x (x + w) \<le> fst p \<and> fst p < max x (x + w) \<and>
      min y (y + h) \<le> snd p \<and> snd p < max y (y + h))"

text \<open>
  \<open>ctx.fillRect(x, y, w, h)\<close> on a canvas of \<open>cw\<close> by \<open>ch\<close> device pixels: the pixels of
  the rectangle that lie on the canvas take the fill style; the rest of the rectangle is
  clipped away.
\<close>

definition fillRect :: "int \<Rightarrow> int \<Rightarrow> int \<Rightarrow> int \<Rightarrow> int \<Rightarrow> int \<Rightarrow> canvas2d \<Rightarrow> canvas2d" where
  "fillRect cw ch x y w h ctx =
     ctx\<lparr>bitmap := (\<lambda>p. if on_canvas cw ch p \<and> in_rect x y w h p then fillStyle ctx
                         else bitmap ctx p)\<rparr>"

subsection \<open>Timers and the console\<close>

text \<open>
  An interval created by \<open>setInterval\<close>: its id, its delay in milliseconds, and the value
  of \<open>totalFrames\<close> its callback has closed over (lines 155-160).
\<close>

record interval_timer =
  timer_id :: nat
  delay_ms :: rat
  closure_totalFrames :: int

definition clearInterval :: "nat \<Rightarrow> interval_timer list \<Rightarrow> interval_timer list" where
  "clearInterval i ts = filter (\<lambda>t. timer_id t \<noteq> i) ts"

datatype console_line =
    Error_connecting js_error
  | Error_loading_video_list js_error
  | Error_loading_video_metadata js_error
  | Error_loading_frame js_error

section \<open>The component \<open>MotherDuckVideoPlayer\<close>\<close>

record canvas_size =
  width :: "int option"
  height :: "int option"

record metadata =
  target_width :: "int option"
  target_height :: "int option"
  fps :: int
  mode :: string

text \<open>A frame query that has been sent and has not settled (the \<open>await\<close> of line 100).\<close>

record fetch =
  fetch_conn :: connection
  fetch_frameId :: jsnum
  fetch_video :: string

text \<open>
  The state cells of lines 5-17, and what the component reaches of its environment: the
  intervals that are running, the last timer id handed out, the console, and the frame
  queries in flight.
\<close>

record player =
  conn :: "connection option"
  canvasSize :: canvas_size
  currentFrame :: jsnum
  isPlaying :: bool
  totalFrames :: int
  pixels :: "pixel list"
  isLoading :: bool
  metadata :: "metadata option"
  videoUrls :: "string list"
  selectedVideo :: string
  token :: string
  canvasRef :: "canvas2d option"
  frameInterval :: "nat option"
  intervals :: "interval_timer list"
  last_timer_id :: nat
  console :: "console_line list"
  inflight :: "fetch list"

definition initial_player :: player where
  "initial_player =
     \<lparr> conn = None, canvasSize = \<lparr> width = Some 160, height = Some 90 \<rparr>,
       currentFrame = Num 0, isPlaying = False, totalFrames = 0, pixels = [],
       isLoading = False, metadata = None, videoUrls = [], selectedVideo = [],
       token = [], canvasRef = None, frameInterval = None, intervals = [],
       last_timer_id = 0, console = [], inflight = [] \<rparr>"

subsection \<open>The canvas element (lines 233-238)\<close>

text \<open>
  The element is rendered with \<open>width = canvasSize.width * 4\<close> and
  \<open>height = canvasSize.height * 4\<close>; an attribute that is negative or greater than
  2147483647 is not a valid size and leaves the element at its default, 300 for the width
  and 150 for the height.  Effects run after the attributes are written, so \<open>canvas.width\<close>
  and \<open>canvas.height\<close> are these values whenever \<open>renderFrame\<close> runs.
\<close>

definition canvas_attribute :: "int \<Rightarrow> int \<Rightarrow> int" where
  "canvas_attribute fallback v = (if v < 0 \<or> 2147483647 < v then fallback else v)"

definition canvas_width :: "player \<Rightarrow> int" where
  "canvas_width s = canvas_attribute 300 (js_number (width (canvasSize s)) * 4)"

definition canvas_height :: "player \<Rightarrow> int" where
  "canvas_height s = canvas_attribute 150 (js_number (height (canvasSize s)) * 4)"

text \<open>Writing a changed \<open>width\<close> or \<open>height\<close> attribute clears the bitmap and resets the context.\<close>

definition resize_canvas :: "player \<Rightarrow> player \<Rightarrow> player" where
  "resize_canvas before s =
     (if canvas_width s = canvas_width before \<and> canvas_height s = canvas_height before then s
      else s\<lparr>canvasRef := map_option (\<lambda>c. new_canvas) (canvasRef s)\<rparr>)"

subsection \<open>\<open>renderFrame\<close> (lines 120-149)\<close>

text \<open>The body of the \<open>forEach\<close>, lines 131-147, for one row.\<close>

definition draw_pixel :: "string \<Rightarrow> int \<Rightarrow> int \<Rightarrow> int \<Rightarrow> pixel \<Rightarrow> canvas2d \<Rightarrow> canvas2d" where
  "draw_pixel m cw ch pixelSize pixel ctx =
     (let ctx1 =
        (if m = ''binary'' then
           set_fillStyle (Some (if px_value pixel = Some 1 then hex_000000 else hex_FFFFFF)) ctx
         else if m = ''grayscale'' then
           (let v = px_value pixel in set_fillStyle (css_rgb v v v) ctx)
         else if m = ''color'' then
           set_fillStyle (css_rgb (px_r pixel) (px_g pixel) (px_b pixel)) ctx
         else ctx)
      in fillRect cw ch (px_x pixel * pixelSize) (px_y pixel * pixelSize) pixelSize pixelSize ctx1)"

text \<open>
  \<open>pixelSize = canvas.width / canvasSize.width\<close> is written with \<open>div\<close>: the quotient is the
  integer 4 whenever the width is positive and the canvas has the width
  \<open>canvasSize.width * 4\<close>.  For a width of \<open>0\<close> or \<open>null\<close> JavaScript gives \<open>NaN\<close>, with which
  \<open>fillRect\<close> paints nothing; so does the size \<open>0\<close> that \<open>div\<close> gives.
\<close>

definition renderFrame :: "player \<Rightarrow> player" where
  "renderFrame s =
     (case canvasRef s of
        None \<Rightarrow> s
      | Some canvas \<Rightarrow>
          if pixels s = [] then s
          else
            (case metadata s of
               None \<Rightarrow> s
             | Some md \<Rightarrow>
                 let cw = canvas_width s;
                     ch = canvas_height s;
                     pixelSize = cw div js_number (width (canvasSize s));
                     ctx1 = set_fillStyle (Some hex_FFFFFF) canvas;
                     ctx2 = fillRect cw ch 0 0 cw ch ctx1;
                     ctx3 = fold (draw_pixel (mode md) cw ch pixelSize) (pixels s) ctx2
                 in s\<lparr>canvasRef := Some ctx3\<rparr>))"

subsection \<open>\<open>loadFrame\<close> (lines 96-118) and the effects (lines 185-191)\<close>

text \<open>
  \<open>loadFrame\<close> up to its \<open>await\<close>: behind the guard of line 97 the query is sent, with the
  connection and the url the callback has closed over.
\<close>

definition loadFrame :: "jsnum \<Rightarrow> player \<Rightarrow> player" where
  "loadFrame frameId s =
     (case conn s of
        None \<Rightarrow> s
      | Some c \<Rightarrow>
          if selectedVideo s = [] then s
          else s\<lparr>inflight := inflight s @
                 [\<lparr> fetch_conn = c, fetch_frameId = frameId, fetch_video = selectedVideo s \<rparr>]\<rparr>)"

text \<open>
  \<open>loadFrame\<close> after its \<open>await\<close>, for the query at position \<open>k\<close> of those in flight: a
  result goes to \<open>setPixels\<close> (line 114), whereupon the effect of lines 189-191 calls
  \<open>renderFrame\<close>; a rejection goes to the console (line 116).
\<close>

definition loadFrame_settled :: "nat \<Rightarrow> player \<Rightarrow> player" where
  "loadFrame_settled k s =
     (if k < length (inflight s) then
        let f = inflight s ! k;
            s1 = s\<lparr>inflight := take k (inflight s) @ drop (Suc k) (inflight s)\<rparr>
        in (case evaluate_frame_query (fetch_conn f) (fetch_frameId f) (fetch_video f) of
              Inl error \<Rightarrow> s1\<lparr>console := console s1 @ [Error_loading_frame error]\<rparr>
            | Inr rows \<Rightarrow> renderFrame (s1\<lparr>pixels := rows\<rparr>))
      else s)"

text \<open>
  \<open>setCurrentFrame\<close>, \<open>setSelectedVideo\<close> and \<open>setConn\<close> with the effect of lines 185-187:
  when the frame index, the url or the connection changes, \<open>loadFrame(currentFrame)\<close> is
  called.  Setting a state cell to the value it has changes nothing.  The canvas is
  mounted once there is a connection (line 195).
\<close>

definition setCurrentFrame :: "jsnum \<Rightarrow> player \<Rightarrow> player" where
  "setCurrentFrame v s = (if currentFrame s = v then s else loadFrame v (s\<lparr>currentFrame := v\<rparr>))"

definition setSelectedVideo :: "string \<Rightarrow> player \<Rightarrow> player" where
  "setSelectedVideo url s =
     (if selectedVideo s = url then s
      else let s1 = s\<lparr>selectedVideo := url\<rparr> in loadFrame (currentFrame s1) s1)"

definition setConn :: "connection \<Rightarrow> player \<Rightarrow> player" where
  "setConn c s =
     (let s1 = s\<lparr>conn := Some c,
                 canvasRef := (case canvasRef s of None \<Rightarrow> Some new_canvas | Some cv \<Rightarrow> Some cv)\<rparr>
      in loadFrame (currentFrame s1) s1)"

subsection \<open>\<open>loadVideoMetadata\<close> (lines 60-94)\<close>

text \<open>
  The four state updates of lines 79-90 depend on the result of the query alone, so the
  \<open>await\<close> is not split.  After them the canvas has its new size, the effect of lines
  185-187 runs if the frame index changed, and the effect of lines 189-191 runs because
  \<open>renderFrame\<close> depends on \<open>metadata\<close> and \<open>canvasSize\<close>.
\<close>

definition loadVideoMetadata :: "js_arg \<Rightarrow> js_arg \<Rightarrow> player \<Rightarrow> player" where
  "loadVideoMetadata connection videoUrl s =
     (if js_not connection then s
      else
        (case evaluateQuery connection (\<lambda>tbl. metadata_query tbl (js_template videoUrl)) of
           Inl error \<Rightarrow> s\<lparr>console := console s @ [Error_loading_video_metadata error]\<rparr>
         | Inr meta \<Rightarrow>
             let s1 = s\<lparr>metadata :=
                          Some \<lparr> target_width = meta_width meta, target_height = meta_height meta,
                                 fps = 25, mode = meta_mode meta \<rparr>,
                        canvasSize := \<lparr> width = meta_width meta, height = meta_height meta \<rparr>,
                        totalFrames := meta_total_frames meta\<rparr>
             in renderFrame (setCurrentFrame (Num 0) (resize_canvas s s1))))"

subsection \<open>\<open>loadAvailableVideos\<close> (lines 38-58) and \<open>connectToMotherDuck\<close> (lines 19-36)\<close>

definition loadAvailableVideos :: "js_arg \<Rightarrow> player \<Rightarrow> player" where
  "loadAvailableVideos connection s =
     (if js_not connection then s
      else
        (case evaluateQuery connection video_list_query of
           Inl error \<Rightarrow> s\<lparr>console := console s @ [Error_loading_video_list error]\<rparr>
         | Inr urls \<Rightarrow>
             let s1 = s\<lparr>videoUrls := urls\<rparr>
             in (case urls of
                   [] \<Rightarrow> s1
                 | url # rest \<Rightarrow>
                     loadVideoMetadata connection (JString url) (setSelectedVideo url s1))))"

text \<open>\<open>created\<close> is what \<open>MDConnection.create\<close> and \<open>isInitialized\<close> come to.\<close>

definition connectToMotherDuck :: "js_error + connection \<Rightarrow> player \<Rightarrow> player" where
  "connectToMotherDuck created s =
     (let s1 = s\<lparr>isLoading := True\<rparr>;
          s2 = (case created of
                  Inl error \<Rightarrow> s1\<lparr>console := console s1 @ [Error_connecting error]\<rparr>
                | Inr connection \<Rightarrow> loadAvailableVideos (JConnection connection) (setConn connection s1))
      in s2\<lparr>isLoading := False\<rparr>)"

subsection \<open>\<open>handleVideoSelect\<close> (lines 171-175)\<close>

text \<open>
  Line 174 calls \<open>loadVideoMetadata(url)\<close>: the url is bound to the parameter \<open>connection\<close>
  and the parameter \<open>videoUrl\<close> is \<open>undefined\<close>.
\<close>

definition handleVideoSelect :: "string \<Rightarrow> player \<Rightarrow> player" where
  "handleVideoSelect url s = loadVideoMetadata (JString url) Undefined (setSelectedVideo url s)"

subsection \<open>\<open>playVideo\<close> (lines 151-161), \<open>pauseVideo\<close> (lines 163-169) and the timer\<close>

text \<open>\<open>frameInterval.current\<close> as a condition: \<open>null\<close> and the id \<open>0\<close> are falsy.\<close>

definition interval_set :: "nat option \<Rightarrow> bool" where
  "interval_set v = (case v of None \<Rightarrow> False | Some i \<Rightarrow> i \<noteq> 0)"

text \<open>\<open>metadata?.fps || 25\<close>.\<close>

definition fps_or_25 :: "metadata option \<Rightarrow> int" where
  "fps_or_25 md = (case md of None \<Rightarrow> 25 | Some m \<Rightarrow> if fps m = 0 then 25 else fps m)"

text \<open>\<open>setInterval\<close> hands out a fresh id, which is greater than zero.\<close>

definition playVideo :: "player \<Rightarrow> player" where
  "playVideo s =
     (if interval_set (frameInterval s) \<or> totalFrames s = 0 then s
      else
        let i = Suc (last_timer_id s) in
        s\<lparr>isPlaying := True,
          frameInterval := Some i,
          last_timer_id := i,
          intervals := intervals s @
            [\<lparr> timer_id = i, delay_ms = 1000 / of_int (fps_or_25 (metadata s)),
               closure_totalFrames = totalFrames s \<rparr>]\<rparr>)"

text \<open>
  The callback of the interval with id \<open>i\<close> (lines 156-159), if that interval is running:
  \<open>setCurrentFrame(prev => (prev + 1) % totalFrames)\<close>.
\<close>

definition interval_fires :: "nat \<Rightarrow> player \<Rightarrow> player" where
  "interval_fires i s =
     (case find (\<lambda>t. timer_id t = i) (intervals s) of
        None \<Rightarrow> s
      | Some t \<Rightarrow>
          setCurrentFrame
            (js_rem (js_add (currentFrame s) (Num 1)) (Num (closure_totalFrames t))) s)"

definition pauseVideo :: "player \<Rightarrow> player" where
  "pauseVideo s =
     (let s1 = (case frameInterval s of
                  None \<Rightarrow> s
                | Some i \<Rightarrow>
                    if i = 0 then s
                    else s\<lparr>intervals := clearInterval i (intervals s), frameInterval := None\<rparr>)
      in s1\<lparr>isPlaying := False\<rparr>)"

text \<open>The cleanup of lines 177-183, when the component is unmounted.\<close>

definition unmount :: "player \<Rightarrow> player" where
  "unmount s =
     (case frameInterval s of
        None \<Rightarrow> s
      | Some i \<Rightarrow> if i = 0 then s else s\<lparr>intervals := clearInterval i (intervals s)\<rparr>)"

text \<open>The slider, line 253: \<open>setCurrentFrame(parseInt(e.target.value))\<close>.\<close>

definition slider_onChange :: "int \<Rightarrow> player \<Rightarrow> player" where
  "slider_onChange v s = setCurrentFrame (Num v) s"

subsection \<open>What can happen to the component\<close>

datatype event =
    Connect "js_error + connection"
  | SelectVideo string
  | Play
  | Pause
  | Seek int
  | IntervalFires nat
  | QuerySettles nat
  | Unmount

fun step :: "event \<Rightarrow> player \<Rightarrow> player" where
  "step (Connect created) s = connectToMotherDuck created s"
| "step (SelectVideo url) s = handleVideoSelect url s"
| "step Play s = playVideo s"
| "step Pause s = pauseVideo s"
| "step (Seek v) s = slider_onChange v s"
| "step (IntervalFires i) s = interval_fires i s"
| "step (QuerySettles k) s = loadFrame_settled k s"
| "step Unmount s = unmount s"

definition run :: "event list \<Rightarrow> player \<Rightarrow> player" where
  "run evs s = fold step evs s"

section \<open>Reading the canvas\<close>

definition canvas_pixel :: "player \<Rightarrow> int \<times> int \<Rightarrow> colour" where
  "canvas_pixel s p = (case canvasRef s of None \<Rightarrow> Transparent | Some cv \<Rightarrow> bitmap cv p)"

text \<open>Every device pixel of the canvas has the colour \<open>c\<close>.\<close>

definition canvas_is_all :: "player \<Rightarrow> colour \<Rightarrow> bool" where
  "canvas_is_all s c =
     list_all (\<lambda>p. canvas_pixel s p = c)
       (List.product [0..canvas_width s - 1] [0..canvas_height s - 1])"

text \<open>
  The colour that lines 131-140 assign to \<open>ctx.fillStyle\<close> for one row, if they assign
  one.
\<close>

definition pixel_style :: "string \<Rightarrow> pixel \<Rightarrow> colour option" where
  "pixel_style m pixel =
     (if m = ''binary'' then Some (if px_value pixel = Some 1 then hex_000000 else hex_FFFFFF)
      else if m = ''grayscale'' then css_rgb (px_value pixel) (px_value pixel) (px_value pixel)
      else if m = ''color'' then css_rgb (px_r pixel) (px_g pixel) (px_b pixel)
      else None)"

text \<open>A row inside the \<open>w\<close> by \<open>h\<close> frame.\<close>

definition in_range :: "int \<Rightarrow> int \<Rightarrow> pixel \<Rightarrow> bool" where
  "in_range w h pixel = (0 \<le> px_x pixel \<and> px_x pixel < w \<and> 0 \<le> px_y pixel \<and> px_y pixel < h)"

section \<open>The ref and the running intervals\<close>

text \<open>
  How the ref \<open>frameInterval\<close> and the running intervals stand to each other: without an
  id in the ref no interval runs; with an id in the ref at most the interval of that id
  runs, and its callback has closed over a \<open>totalFrames\<close> other than \<open>0\<close>.
\<close>

definition timer_inv :: "player \<Rightarrow> bool" where
  "timer_inv s =
     (case frameInterval s of
        None \<Rightarrow> intervals s = []
      | Some i \<Rightarrow>
          i \<noteq> 0 \<and>
          (case intervals s of
             [] \<Rightarrow> True
           | t # ts \<Rightarrow> ts = [] \<and> timer_id t = i \<and> closure_totalFrames t \<noteq> 0))"

section \<open>The mode rule of the specification\<close>

text \<open>
  The rule for the mode as the specification words it: colour if any record has \<open>r\<close>,
  else binary if every value that is present is 0 or 1, else grayscale.
\<close>

definition spec_mode :: "db_row list \<Rightarrow> string" where
  "spec_mode rows =
     (if list_ex (\<lambda>r. row_r r \<noteq> None) rows then ''color''
      else if list_all (\<lambda>r. case row_value r of None \<Rightarrow> True | Some v \<Rightarrow> v = 0 \<or> v = 1) rows
        then ''binary''
      else ''grayscale'')"

section \<open>The encoder configuration (\<open>src/ducktube/spec.json\<close>)\<close>

text \<open>
  The encoder is not among the sources; its configuration schema is.  The properties of
  \<open>connectionSpecification\<close>, with their types:
\<close>

record encoder_config =
  cfg_url :: string
  cfg_target_width :: int
  cfg_target_height :: int
  cfg_mode :: string
  cfg_threshold :: int
  cfg_max_duration :: int

datatype encoder_error = ConfigError

text \<open>The pattern \<open>^https?://\<close> of \<open>url\<close>.\<close>

definition url_pattern :: "string \<Rightarrow> bool" where
  "url_pattern u = (take 7 u = ''http://'' \<or> take 8 u = ''https://'')"

text \<open>
  The constraints of the schema: \<open>minimum\<close> 16 and 9 for the target size, the \<open>enum\<close> of
  \<open>mode\<close>, \<open>minimum\<close> 0 and \<open>maximum\<close> 255 for \<open>threshold\<close>, \<open>minimum\<close> 1 for \<open>max_duration\<close>.
\<close>

definition config_valid :: "encoder_config \<Rightarrow> bool" where
  "config_valid c =
     (url_pattern (cfg_url c) \<and>
      16 \<le> cfg_target_width c \<and>
      9 \<le> cfg_target_height c \<and>
      cfg_mode c \<in> set [''binary'', ''grayscale'', ''color''] \<and>
      0 \<le> cfg_threshold c \<and> cfg_threshold c \<le> 255 \<and>
      1 \<le> cfg_max_duration c)"

text \<open>
  Modelled from the spec: the configuration check of the encoder, which is not among the
  sources.  A configuration that violates the schema is rejected with \<open>ConfigError\<close>.
\<close>

definition check_config :: "encoder_config \<Rightarrow> encoder_error + encoder_config" where
  "check_config c = (if config_valid c then Inr c else Inl ConfigError)"

text \<open>
  Modelled from the spec: the encode job, which is not among the sources.  The
  configuration is checked before any frame is processed; \<open>encode\<close> is the encoding of one
  frame into records, whatever it is.
\<close>

definition encode_video ::
    "(encoder_config \<Rightarrow> 'f \<Rightarrow> 'r list) \<Rightarrow> encoder_config \<Rightarrow> 'f list \<Rightarrow> encoder_error + 'r list" where
  "encode_video encode c frames =
     (case check_config c of
        Inl e \<Rightarrow> Inl e
      | Inr ok \<Rightarrow> Inr (concat (map (encode ok) frames)))"

section \<open>Concrete inputs\<close>

text \<open>
  A table with two videos.  Video \<open>a\<close> is 3 by 1 with frames 0 to 5, frame \<open>k\<close> having its
  one record at column \<open>k mod 3\<close> with value 1; video \<open>b\<close> is 4 by 2 with one frame of two
  grey values, 0 and 200.
\<close>

definition demo_row :: "string \<Rightarrow> int \<Rightarrow> int \<Rightarrow> int \<Rightarrow> int option \<Rightarrow> db_row" where
  "demo_row url f x y v =
     \<lparr> frame_id = f, row_x = x, row_y = y, row_value = v,
       row_r = None, row_g = None, row_b = None, video_url = url \<rparr>"

definition demo_table :: "db_row list" where
  "demo_table =
     [demo_row ''a'' 0 0 0 (Some 1), demo_row ''a'' 1 1 0 (Some 1),
      demo_row ''a'' 2 2 0 (Some 1), demo_row ''a'' 3 0 0 (Some 1),
      demo_row ''a'' 4 1 0 (Some 1), demo_row ''a'' 5 2 0 (Some 1),
      demo_row ''b'' 0 0 0 (Some 0), demo_row ''b'' 0 3 1 (Some 200)]"

definition demo_conn :: connection where
  "demo_conn = \<lparr> table = demo_table, online = True \<rparr>"

text \<open>A video whose one record has the value \<open>-1\<close>.\<close>

definition demo_negative_conn :: connection where
  "demo_negative_conn = \<lparr> table = [demo_row ''n'' 0 0 0 (Some (- 1))], online = True \<rparr>"

text \<open>A paused player on a video of three frames.\<close>

definition demo_three_frames :: player where
  "demo_three_frames =
     initial_player
       \<lparr> totalFrames := 3,
         metadata := Some \<lparr> target_width = Some 2, target_height = Some 2, fps = 25,
                             mode = ''binary'' \<rparr> \<rparr>"

text \<open>
  Video \<open>s\<close>, 2 by 1, stored sparsely: frame 0 has its left pixel on, frame 1 has no pixel
  on and so no record, frame 2 has its right pixel on.
\<close>

definition demo_sparse_conn :: connection where
  "demo_sparse_conn =
     \<lparr> table = [demo_row ''s'' 0 0 0 (Some 1), demo_row ''s'' 2 1 0 (Some 1)], online = True \<rparr>"

text \<open>Video \<open>b\<close> alone.\<close>

definition demo_gray_conn :: connection where
  "demo_gray_conn = \<lparr> table = filter (\<lambda>r. video_url r = ''b'') demo_table, online = True \<rparr>"

text \<open>Video \<open>o\<close>, whose first record lies left of column 0.\<close>

definition demo_stray_conn :: connection where
  "demo_stray_conn =
     \<lparr> table = [demo_row ''o'' 0 (- 1) 0 (Some 1), demo_row ''o'' 0 1 0 (Some 1)], online = True \<rparr>"

text \<open>The rows of frame \<open>n\<close> of video \<open>a\<close>.\<close>

definition demo_frame_rows :: "int \<Rightarrow> pixel list" where
  "demo_frame_rows n = (case frame_query demo_table n ''a'' of Inl e \<Rightarrow> [] | Inr rows \<Rightarrow> rows)"

text \<open>A configuration with \<open>target_width = 8\<close>.\<close>

definition demo_narrow_config :: encoder_config where
  "demo_narrow_config =
     \<lparr> cfg_url = ''https://example.org/v'', cfg_target_width = 8, cfg_target_height = 90,
       cfg_mode = ''binary'', cfg_threshold = 128, cfg_max_duration = 10 \<rparr>"

text \<open>
  Video \<open>a\<close> is loaded and the frames 3 and 5 are sought one after the other: three frame
  queries are in flight, for the frames 0, 3 and 5.
\<close>

definition demo_two_seeks :: player where
  "demo_two_seeks = run [Connect (Inr demo_conn), Seek 3, Seek 5] initial_player"

text \<open>The sparse video shows its frame 0, and the query for its frame 1 is in flight.\<close>

definition demo_sparse_waiting :: player where
  "demo_sparse_waiting =
     run [Connect (Inr demo_sparse_conn), QuerySettles 0, Seek 1] initial_player"

text \<open>Video \<open>b\<close> shows its frame 0.\<close>

definition demo_gray_shown :: player where
  "demo_gray_shown = run [Connect (Inr demo_gray_conn), QuerySettles 0] initial_player"

text \<open>Video \<open>o\<close> shows its frame 0.\<close>

definition demo_stray_shown :: player where
  "demo_stray_shown = run [Connect (Inr demo_stray_conn), QuerySettles 0] initial_player"

text \<open>Video \<open>a\<close> is loaded and the index is at frame 4.\<close>

definition demo_at_frame_4 :: player where
  "demo_at_frame_4 = run [Connect (Inr demo_conn), Seek 4] initial_player"

text \<open>A video with a record at the last column a 32-bit integer can number.\<close>

definition demo_wide_conn :: connection where
  "demo_wide_conn = \<lparr> table = [demo_row ''w'' 0 2147483647 0 (Some 1)], online = True \<rparr>"

text \<open>A video whose url has a quote in it.\<close>

definition demo_quoted_url :: string where
  "demo_quoted_url = ''https://v/it'' @ [sql_quote] @ ''s''"

definition demo_quoted_conn :: connection where
  "demo_quoted_conn = \<lparr> table = [demo_row demo_quoted_url 0 0 0 (Some 1)], online = True \<rparr>"

section \<open>The queries\<close>



section \<open>Fields that the functions of the component leave alone\<close>

lemma renderFrame_keeps:
  "metadata (renderFrame s) = metadata s"
  "canvasSize (renderFrame s) = canvasSize s"
  "totalFrames (renderFrame s) = totalFrames s"
  "currentFrame (renderFrame s) = currentFrame s"
  "intervals (renderFrame s) = intervals s"
  "frameInterval (renderFrame s) = frameInterval s"
  "console (renderFrame s) = console s"
  "inflight (renderFrame s) = inflight s"
  "pixels (renderFrame s) = pixels s"
  "conn (renderFrame s) = conn s"
  "selectedVideo (renderFrame s) = selectedVideo s"
  by (simp_all add: renderFrame_def Let_def split: option.splits)

lemma loadFrame_keeps:
  "metadata (loadFrame v s) = metadata s"
  "canvasSize (loadFrame v s) = canvasSize s"
  "totalFrames (loadFrame v s) = totalFrames s"
  "currentFrame (loadFrame v s) = currentFrame s"
  "intervals (loadFrame v s) = intervals s"
  "frameInterval (loadFrame v s) = frameInterval s"
  "console (loadFrame v s) = console s"
  "pixels (loadFrame v s) = pixels s"
  "conn (loadFrame v s) = conn s"
  "selectedVideo (loadFrame v s) = selectedVideo s"
  "canvasRef (loadFrame v s) = canvasRef s"
  by (simp_all add: loadFrame_def split: option.splits)

lemma setCurrentFrame_keeps:
  "metadata (setCurrentFrame v s) = metadata s"
  "canvasSize (setCurrentFrame v s) = canvasSize s"
  "totalFrames (setCurrentFrame v s) = totalFrames s"
  "currentFrame (setCurrentFrame v s) = v"
  "intervals (setCurrentFrame v s) = intervals s"
  "frameInterval (setCurrentFrame v s) = frameInterval s"
  "console (setCurrentFrame v s) = console s"
  "pixels (setCurrentFrame v s) = pixels s"
  "conn (setCurrentFrame v s) = conn s"
  "selectedVideo (setCurrentFrame v s) = selectedVideo s"
  "canvasRef (setCurrentFrame v s) = canvasRef s"
  by (simp_all add: setCurrentFrame_def loadFrame_keeps)

lemma setSelectedVideo_keeps:
  "metadata (setSelectedVideo u s) = metadata s"
  "canvasSize (setSelectedVideo u s) = canvasSize s"
  "totalFrames (setSelectedVideo u s) = totalFrames s"
  "currentFrame (setSelectedVideo u s) = currentFrame s"
  "intervals (setSelectedVideo u s) = intervals s"
  "frameInterval (setSelectedVideo u s) = frameInterval s"
  "console (setSelectedVideo u s) = console s"
  "pixels (setSelectedVideo u s) = pixels s"
  "conn (setSelectedVideo u s) = conn s"
  "selectedVideo (setSelectedVideo u s) = u"
  "canvasRef (setSelectedVideo u s) = canvasRef s"
  by (simp_all add: setSelectedVideo_def Let_def loadFrame_keeps)

lemma resize_canvas_keeps:
  "metadata (resize_canvas b s) = metadata s"
  "canvasSize (resize_canvas b s) = canvasSize s"
  "totalFrames (resize_canvas b s) = totalFrames s"
  "currentFrame (resize_canvas b s) = currentFrame s"
  "intervals (resize_canvas b s) = intervals s"
  "frameInterval (resize_canvas b s) = frameInterval s"
  "console (resize_canvas b s) = console s"
  "pixels (resize_canvas b s) = pixels s"
  "conn (resize_canvas b s) = conn s"
  "selectedVideo (resize_canvas b s) = selectedVideo s"
  "inflight (resize_canvas b s) = inflight s"
  by (simp_all add: resize_canvas_def)

section \<open>The derived metadata\<close>







text \<open>A query that fails is logged, and the state is otherwise what it was.\<close>

lemma loadVideoMetadata_rejected:
  assumes "online c" and "metadata_query (table c) url = Inl e"
  shows "loadVideoMetadata (JConnection c) (JString url) s =
           s\<lparr>console := console s @ [Error_loading_video_metadata e]\<rparr>"
  using assms by (simp add: loadVideoMetadata_def evaluateQuery_def)



text \<open>
  Outside these conditions the query fails and no metadata is set: a record at column
  \<open>2147483647\<close> makes \<open>max(x) + 1\<close> overflow the cast, and a url with a quote in it does
  not parse.
\<close>

lemma metadata_query_fails:
  "loadVideoMetadata (JConnection demo_wide_conn) (JString ''w'') initial_player =
     initial_player\<lparr>console := [Error_loading_video_metadata ConversionError]\<rparr> \<and>
   loadVideoMetadata (JConnection demo_quoted_conn) (JString demo_quoted_url) initial_player =
     initial_player\<lparr>console := [Error_loading_video_metadata ParserError]\<rparr>"
proof -
  have "metadata_query (table demo_wide_conn) ''w'' = Inl ConversionError"
    by code_simp
  moreover have "metadata_query (table demo_quoted_conn) demo_quoted_url = Inl ParserError"
    by code_simp
  moreover have "online demo_wide_conn" "online demo_quoted_conn"
    by (simp_all add: demo_wide_conn_def demo_quoted_conn_def)
  ultimately show ?thesis
    by (simp add: loadVideoMetadata_rejected initial_player_def)
qed



text \<open>
  The condition on the sign is needed: the player tests \<open>MAX(value) <= 1\<close>, so a video
  whose only value is \<open>-1\<close>, which is no value of the data model, is binary for the player
  and grayscale by the rule.
\<close>

lemma mode_of_a_negative_value:
  "map_option mode
     (metadata (loadVideoMetadata (JConnection demo_negative_conn) (JString ''n'') initial_player)) =
     Some ''binary'' \<and>
   spec_mode (filter (\<lambda>r. video_url r = ''n'') (table demo_negative_conn)) = ''grayscale''"
  by code_simp

section \<open>The timer\<close>

lemma loadVideoMetadata_keeps:
  "intervals (loadVideoMetadata a b s) = intervals s"
  "frameInterval (loadVideoMetadata a b s) = frameInterval s"
  "selectedVideo (loadVideoMetadata a b s) = selectedVideo s"
  "conn (loadVideoMetadata a b s) = conn s"
  by (simp_all add: loadVideoMetadata_def Let_def renderFrame_keeps setCurrentFrame_keeps
      resize_canvas_keeps split: sum.splits)

lemma loadVideoMetadata_of_string:
  "loadVideoMetadata (JString url) v s =
     (if url = [] then s else s\<lparr>console := console s @ [Error_loading_video_metadata TypeError]\<rparr>)"
  by (simp add: loadVideoMetadata_def evaluateQuery_def)

lemma handleVideoSelect_keeps:
  "metadata (handleVideoSelect url s) = metadata s"
  "canvasSize (handleVideoSelect url s) = canvasSize s"
  "totalFrames (handleVideoSelect url s) = totalFrames s"
  "currentFrame (handleVideoSelect url s) = currentFrame s"
  "intervals (handleVideoSelect url s) = intervals s"
  "frameInterval (handleVideoSelect url s) = frameInterval s"
  "selectedVideo (handleVideoSelect url s) = url"
  by (simp_all add: handleVideoSelect_def loadVideoMetadata_of_string setSelectedVideo_keeps)

lemma setConn_keeps:
  "intervals (setConn c s) = intervals s"
  "frameInterval (setConn c s) = frameInterval s"
  by (simp_all add: setConn_def Let_def loadFrame_keeps)

lemma loadAvailableVideos_keeps:
  "intervals (loadAvailableVideos a s) = intervals s"
  "frameInterval (loadAvailableVideos a s) = frameInterval s"
  by (simp_all add: loadAvailableVideos_def Let_def loadVideoMetadata_keeps setSelectedVideo_keeps
      split: sum.splits list.splits)

lemma connectToMotherDuck_keeps:
  "intervals (connectToMotherDuck r s) = intervals s"
  "frameInterval (connectToMotherDuck r s) = frameInterval s"
  by (simp_all add: connectToMotherDuck_def Let_def loadAvailableVideos_keeps setConn_keeps
      split: sum.splits)

lemma loadFrame_settled_keeps:
  "intervals (loadFrame_settled k s) = intervals s"
  "frameInterval (loadFrame_settled k s) = frameInterval s"
  "currentFrame (loadFrame_settled k s) = currentFrame s"
  "totalFrames (loadFrame_settled k s) = totalFrames s"
  by (simp_all add: loadFrame_settled_def Let_def renderFrame_keeps split: sum.splits)

lemma interval_fires_keeps:
  "intervals (interval_fires i s) = intervals s"
  "frameInterval (interval_fires i s) = frameInterval s"
  "totalFrames (interval_fires i s) = totalFrames s"
  by (simp_all add: interval_fires_def setCurrentFrame_keeps split: option.splits)

lemma slider_onChange_keeps:
  "intervals (slider_onChange v s) = intervals s"
  "frameInterval (slider_onChange v s) = frameInterval s"
  by (simp_all add: slider_onChange_def setCurrentFrame_keeps)

lemma timer_inv_cong:
  "intervals s' = intervals s \<Longrightarrow> frameInterval s' = frameInterval s \<Longrightarrow>
   timer_inv s \<Longrightarrow> timer_inv s'"
  by (auto simp: timer_inv_def split: option.splits list.splits)

lemma timer_inv_playVideo: "timer_inv s \<Longrightarrow> timer_inv (playVideo s)"
  by (auto simp: timer_inv_def playVideo_def interval_set_def Let_def split: option.splits list.splits)

lemma timer_inv_pauseVideo: "timer_inv s \<Longrightarrow> timer_inv (pauseVideo s)"
  by (auto simp: timer_inv_def pauseVideo_def clearInterval_def Let_def split: option.splits list.splits)

lemma timer_inv_unmount: "timer_inv s \<Longrightarrow> timer_inv (unmount s)"
  by (auto simp: timer_inv_def unmount_def clearInterval_def split: option.splits list.splits)

lemma timer_inv_step: "timer_inv s \<Longrightarrow> timer_inv (step e s)"
proof (cases e)
  case (Connect r)
  assume "timer_inv s"
  then show ?thesis
    using Connect by (simp add: timer_inv_cong [OF connectToMotherDuck_keeps])
next
  case (SelectVideo u)
  assume "timer_inv s"
  then show ?thesis
    using SelectVideo by (simp add: timer_inv_cong [OF handleVideoSelect_keeps(5,6)])
next
  case Play
  assume "timer_inv s"
  then show ?thesis using Play by (simp add: timer_inv_playVideo)
next
  case Pause
  assume "timer_inv s"
  then show ?thesis using Pause by (simp add: timer_inv_pauseVideo)
next
  case (Seek v)
  assume "timer_inv s"
  then show ?thesis
    using Seek by (simp add: timer_inv_cong [OF slider_onChange_keeps])
next
  case (IntervalFires i)
  assume "timer_inv s"
  then show ?thesis
    using IntervalFires by (simp add: timer_inv_cong [OF interval_fires_keeps(1,2)])
next
  case (QuerySettles k)
  assume "timer_inv s"
  then show ?thesis
    using QuerySettles by (simp add: timer_inv_cong [OF loadFrame_settled_keeps(1,2)])
next
  case Unmount
  assume "timer_inv s"
  then show ?thesis using Unmount by (simp add: timer_inv_unmount)
qed

lemma timer_inv_run: "timer_inv s \<Longrightarrow> timer_inv (run evs s)"
  unfolding run_def by (induction evs arbitrary: s) (simp_all add: timer_inv_step)

lemma timer_inv_initial: "timer_inv initial_player"
  by (simp add: timer_inv_def initial_player_def)

lemma timer_inv_at_most_one:
  "timer_inv s \<Longrightarrow> length (intervals s) \<le> 1 \<and> (\<forall>t \<in> set (intervals s). closure_totalFrames t \<noteq> 0)"
  by (auto simp: timer_inv_def split: option.splits list.splits)

text \<open>
  C10.  \<open>playVideo\<close> called while the ref holds an interval, or while \<open>totalFrames\<close> is 0,
  returns the state it was given.  Whatever happens to the component from its initial
  state (connecting, selecting, playing, pausing, seeking, ticks, query results,
  unmounting, in any order), at most one interval is running, and no running interval
  has closed over \<open>totalFrames = 0\<close>.
\<close>

theorem play_is_guarded_and_timer_is_single:
  "(interval_set (frameInterval s) \<or> totalFrames s = 0 \<longrightarrow> playVideo s = s) \<and>
   length (intervals (run evs initial_player)) \<le> 1 \<and>
   (\<forall>t \<in> set (intervals (run evs initial_player)). closure_totalFrames t \<noteq> 0)"
  using timer_inv_at_most_one [OF timer_inv_run [OF timer_inv_initial, of evs]]
  by (simp add: playVideo_def)


theorem play_is_guarded_and_timer_is_single_witness:
  "(let s = run [Connect (Inr demo_conn), Play] initial_player in
      interval_set (frameInterval s) \<and> playVideo s = s \<and>
      playVideo initial_player = initial_player \<and>
      length (intervals (run [Connect (Inr demo_conn), Play, Play, Pause, Play] initial_player)) = 1)"
proof -
  define s where "s = run [Connect (Inr demo_conn), Play] initial_player"
  define evs where "evs = [Connect (Inr demo_conn), Play, Play, Pause, Play]"
  have a: "interval_set (frameInterval s)"
    unfolding s_def by code_simp
  have b: "totalFrames initial_player = 0"
    by (simp add: initial_player_def)
  have c: "1 \<le> length (intervals (run evs initial_player))"
    unfolding evs_def by code_simp
  have "playVideo s = s" and d: "length (intervals (run evs initial_player)) \<le> 1"
    using play_is_guarded_and_timer_is_single [of s evs] a by simp_all
  moreover have "playVideo initial_player = initial_player"
    using play_is_guarded_and_timer_is_single [of initial_player evs] b by simp
  moreover have "length (intervals (run evs initial_player)) = 1"
    using c d by linarith
  ultimately show ?thesis
    using a unfolding s_def evs_def by (simp add: Let_def)
qed

lemma js_rem_nonneg: "0 \<le> a \<Longrightarrow> 0 < b \<Longrightarrow> js_rem (Num a) (Num b) = Num (a mod b)"
  by (cases "a = 0") simp_all

lemma interval_fires_running:
  assumes "intervals s = [t]" and "timer_id t = i" and "0 < closure_totalFrames t"
    and "currentFrame s = Num c" and "0 \<le> c"
  shows "currentFrame (interval_fires i s) = Num ((c + 1) mod closure_totalFrames t)"
  using assms by (simp add: interval_fires_def setCurrentFrame_keeps js_rem_nonneg)

lemma interval_fires_repeatedly:
  assumes "intervals s = [t]" and "timer_id t = i" and "0 < closure_totalFrames t"
    and "currentFrame s = Num c" and "0 \<le> c"
  shows "intervals ((interval_fires i ^^ k) s) = [t] \<and>
         currentFrame ((interval_fires i ^^ k) s) =
           Num (if k = 0 then c else (c + int k) mod closure_totalFrames t)"
proof (induction k)
  case 0
  show ?case using assms by simp
next
  case (Suc k)
  let ?s = "(interval_fires i ^^ k) s"
  let ?c = "if k = 0 then c else (c + int k) mod closure_totalFrames t"
  have c: "0 \<le> ?c" using assms(3,5) by simp
  have "currentFrame (interval_fires i ?s) = Num ((?c + 1) mod closure_totalFrames t)"
    using interval_fires_running [OF _ assms(2,3) _ c, of ?s] Suc by simp
  moreover have "(?c + 1) mod closure_totalFrames t = (c + int (Suc k)) mod closure_totalFrames t"
    by (simp add: mod_add_right_eq mod_add_left_eq ac_simps)
  ultimately show ?case
    using Suc by (simp add: interval_fires_keeps)
qed

text \<open>
  C7.  \<open>playVideo\<close> on a paused player with \<open>totalFrames > 0\<close> starts playing with one
  interval, whose delay is \<open>1000 / fps\<close> milliseconds; with the frame index at \<open>c\<close>, the
  index after \<open>k\<close> ticks of that interval is \<open>(c + k) mod totalFrames\<close>: every tick moves it
  to \<open>(index + 1) mod totalFrames\<close>, wrapping at the last frame, and none yields \<open>NaN\<close>.
\<close>

theorem ticks_advance_modulo_totalFrames:
  assumes "frameInterval s = None" and "intervals s = []"
    and "0 < totalFrames s"
    and "currentFrame s = Num c" and "0 \<le> c" and "c < totalFrames s"
    and "metadata s = Some md" and "fps md \<noteq> 0"
    and "i = Suc (last_timer_id s)"
  shows "isPlaying (playVideo s) \<and> frameInterval (playVideo s) = Some i \<and>
         map timer_id (intervals (playVideo s)) = [i] \<and>
         map delay_ms (intervals (playVideo s)) = [1000 / of_int (fps md)] \<and>
         currentFrame ((interval_fires i ^^ k) (playVideo s)) = Num ((c + int k) mod totalFrames s)"
proof -
  let ?t = "\<lparr> timer_id = i, delay_ms = 1000 / of_int (fps md),
              closure_totalFrames = totalFrames s \<rparr>"
  have p: "playVideo s =
             s\<lparr>isPlaying := True, frameInterval := Some i, last_timer_id := i, intervals := [?t]\<rparr>"
    using assms by (simp add: playVideo_def interval_set_def fps_or_25_def Let_def)
  have "currentFrame ((interval_fires i ^^ k) (playVideo s)) =
          Num (if k = 0 then c else (c + int k) mod totalFrames s)"
    using interval_fires_repeatedly [of "playVideo s" ?t i c k] assms(3,4,5) by (simp add: p)
  moreover have "c mod totalFrames s = c"
    using assms(5,6) by simp
  ultimately show ?thesis
    by (simp add: p)
qed

theorem ticks_advance_modulo_totalFrames_witness:
  "map (\<lambda>k. currentFrame ((interval_fires 1 ^^ k) (playVideo demo_three_frames))) [0, 1, 2, 3, 4, 5, 6]
     = map Num [0, 1, 2, 0, 1, 2, 0] \<and>
   map delay_ms (intervals (playVideo demo_three_frames)) = [40]"
proof -
  have h: "frameInterval demo_three_frames = None" "intervals demo_three_frames = []"
    "0 < totalFrames demo_three_frames" "currentFrame demo_three_frames = Num 0"
    "metadata demo_three_frames = Some \<lparr> target_width = Some 2, target_height = Some 2, fps = 25, mode = ''binary'' \<rparr>"
    "1 = Suc (last_timer_id demo_three_frames)" "totalFrames demo_three_frames = 3"
    by (simp_all add: demo_three_frames_def initial_player_def)
  have t: "\<And>k. currentFrame ((interval_fires 1 ^^ k) (playVideo demo_three_frames)) = Num (int k mod 3) \<and>
     map delay_ms (intervals (playVideo demo_three_frames)) = [40]"
    using ticks_advance_modulo_totalFrames [OF h(1,2,3,4) _ _ h(5) _ h(6)] h(7) by simp
  show ?thesis
    using t [of 0] t[of 1] t[of 2] t[of 3] t[of 4] t[of 5] t[of 6] by simp
qed

section \<open>Selecting a video\<close>

text \<open>
  C8 does not hold of \<open>handleVideoSelect\<close>.  With video \<open>a\<close> loaded and the index at frame
  4, selecting video \<open>b\<close> changes \<open>selectedVideo\<close> only: no metadata query reaches the
  store, a \<open>TypeError\<close> is logged, and size, frame count, mode and frame index stay
  those of \<open>a\<close>, although the metadata query on \<open>b\<close> would give 4 by 2, one frame,
  grayscale.
\<close>

theorem handleVideoSelect_keeps_previous_metadata:
  "selectedVideo demo_at_frame_4 = ''a'' \<and>
   selectedVideo (handleVideoSelect ''b'' demo_at_frame_4) = ''b'' \<and>
   canvasSize (handleVideoSelect ''b'' demo_at_frame_4) = \<lparr> width = Some 3, height = Some 1 \<rparr> \<and>
   totalFrames (handleVideoSelect ''b'' demo_at_frame_4) = 6 \<and>
   map_option mode (metadata (handleVideoSelect ''b'' demo_at_frame_4)) = Some ''binary'' \<and>
   currentFrame (handleVideoSelect ''b'' demo_at_frame_4) = Num 4 \<and>
   console (handleVideoSelect ''b'' demo_at_frame_4) = [Error_loading_video_metadata TypeError] \<and>
   metadata_query demo_table ''b'' =
     Inr \<lparr> meta_width = Some 4, meta_height = Some 2, meta_total_frames = 1,
           meta_mode = ''grayscale'' \<rparr>"
  by code_simp

section \<open>Painting a frame\<close>

lemma fillRect_simps:
  "bitmap (fillRect cw ch x y w h ctx) p =
     (if on_canvas cw ch p \<and> in_rect x y w h p then fillStyle ctx else bitmap ctx p)"
  "fillStyle (fillRect cw ch x y w h ctx) = fillStyle ctx"
  by (simp_all add: fillRect_def)

lemma draw_pixel_simps:
  "bitmap (draw_pixel m cw ch ps px ctx) p =
     (if on_canvas cw ch p \<and> in_rect (px_x px * ps) (px_y px * ps) ps ps p
      then (case pixel_style m px of None \<Rightarrow> fillStyle ctx | Some c \<Rightarrow> c)
      else bitmap ctx p)"
  "fillStyle (draw_pixel m cw ch ps px ctx) =
     (case pixel_style m px of None \<Rightarrow> fillStyle ctx | Some c \<Rightarrow> c)"
  by (simp_all add: draw_pixel_def pixel_style_def set_fillStyle_def fillRect_simps Let_def
      split: option.splits)

lemma fold_draw_uncovered:
  assumes "\<forall>px \<in> set rows. \<not> in_rect (px_x px * ps) (px_y px * ps) ps ps p"
  shows "bitmap (fold (draw_pixel m cw ch ps) rows ctx) p = bitmap ctx p"
  using assms by (induction rows arbitrary: ctx) (simp_all add: draw_pixel_simps)

lemma fold_draw_off_canvas:
  assumes "\<not> on_canvas cw ch p"
  shows "bitmap (fold (draw_pixel m cw ch ps) rows ctx) p = bitmap ctx p"
  using assms by (induction rows arbitrary: ctx) (simp_all add: draw_pixel_simps)

lemma fold_draw_last_cover:
  assumes "rows = before @ px # after"
    and "\<forall>q \<in> set after. \<not> in_rect (px_x q * ps) (px_y q * ps) ps ps p"
    and "in_rect (px_x px * ps) (px_y px * ps) ps ps p"
    and "on_canvas cw ch p"
    and "pixel_style m px = Some c"
  shows "bitmap (fold (draw_pixel m cw ch ps) rows ctx) p = c"
  using assms by (simp add: fold_draw_uncovered draw_pixel_simps)

lemma in_rect_cell:
  "in_rect (x * 4) (y * 4) 4 4 p \<longleftrightarrow> (x, y) = (fst p div 4, snd p div 4)"
  by (auto simp: in_rect_def)

lemma out_of_range_off_canvas:
  assumes "\<not> in_range w h px"
  shows "\<not> (on_canvas (w * 4) (h * 4) p \<and> in_rect (px_x px * 4) (px_y px * 4) 4 4 p)"
  using assms by (auto simp: in_range_def on_canvas_def in_rect_def)

lemma draw_pixel_out_of_range:
  assumes "\<not> in_range w h px"
  shows "bitmap (draw_pixel m (w * 4) (h * 4) 4 px ctx) = bitmap ctx"
  using out_of_range_off_canvas [OF assms] by (auto simp: draw_pixel_simps fun_eq_iff)

lemma draw_pixel_with_style:
  assumes "pixel_style m px = Some c" and "bitmap ctx = bitmap ctx'"
  shows "bitmap (draw_pixel m cw ch ps px ctx) = bitmap (draw_pixel m cw ch ps px ctx')"
  using assms by (auto simp: draw_pixel_simps fun_eq_iff)

lemma fold_draw_skips_out_of_range:
  assumes "\<forall>px \<in> set rows. pixel_style m px \<noteq> None" and "bitmap ctx = bitmap ctx'"
  shows "bitmap (fold (draw_pixel m (w * 4) (h * 4) 4) rows ctx) =
         bitmap (fold (draw_pixel m (w * 4) (h * 4) 4) (filter (in_range w h) rows) ctx')"
  using assms
proof (induction rows arbitrary: ctx ctx')
  case Nil
  then show ?case by simp
next
  case (Cons px rows)
  show ?case
  proof (cases "in_range w h px")
    case True
    from Cons.prems obtain c where "pixel_style m px = Some c" by auto
    then have "bitmap (draw_pixel m (w * 4) (h * 4) 4 px ctx) =
               bitmap (draw_pixel m (w * 4) (h * 4) 4 px ctx')"
      using Cons.prems(2) by (rule draw_pixel_with_style)
    then show ?thesis
      using Cons.IH [of "draw_pixel m (w * 4) (h * 4) 4 px ctx" "draw_pixel m (w * 4) (h * 4) 4 px ctx'"]
        Cons.prems(1) True by simp
  next
    case False
    then have "bitmap (draw_pixel m (w * 4) (h * 4) 4 px ctx) = bitmap ctx'"
      using Cons.prems(2) by (simp add: draw_pixel_out_of_range)
    then show ?thesis
      using Cons.IH [of "draw_pixel m (w * 4) (h * 4) 4 px ctx" ctx'] Cons.prems(1) False by simp
  qed
qed

lemma renderFrame_painted:
  assumes "canvasRef s = Some cv" and "metadata s = Some md" and "pixels s \<noteq> []"
    and "canvasSize s = \<lparr> width = Some w, height = Some h \<rparr>" and "0 < w" and "0 < h"
    and "w * 4 \<le> 2147483647" and "h * 4 \<le> 2147483647"
  shows "canvas_pixel (renderFrame s) p =
           bitmap (fold (draw_pixel (mode md) (w * 4) (h * 4) 4) (pixels s)
                     (fillRect (w * 4) (h * 4) 0 0 (w * 4) (h * 4) (cv\<lparr>fillStyle := hex_FFFFFF\<rparr>))) p"
  using assms
  by (simp add: renderFrame_def canvas_pixel_def canvas_width_def canvas_height_def
      canvas_attribute_def js_number_def Let_def set_fillStyle_def)

lemma white_fill:
  assumes "on_canvas cw ch p" and "0 < cw" "0 < ch"
  shows "bitmap (fillRect cw ch 0 0 cw ch (cv\<lparr>fillStyle := c\<rparr>)) p = c"
  using assms by (auto simp: fillRect_simps in_rect_def on_canvas_def)

lemma renderFrame_empty: "pixels s = [] \<Longrightarrow> renderFrame s = s"
  by (simp add: renderFrame_def split: option.splits)

lemma renderFrame_off_canvas:
  assumes "\<not> on_canvas (canvas_width s) (canvas_height s) p"
  shows "canvas_pixel (renderFrame s) p = canvas_pixel s p"
  using assms
  by (simp add: renderFrame_def canvas_pixel_def Let_def fold_draw_off_canvas fillRect_simps
      set_fillStyle_def split: option.splits)

text \<open>
  C2, as the code has it.  On an empty row set \<open>renderFrame\<close> returns at its guard (line
  122) and the state, canvas included, is what it was; so a frame query that is answered
  with no rows empties \<open>pixels\<close> and leaves the canvas showing what it showed.
\<close>

theorem renderFrame_empty_rows_is_noop:
  "(pixels s = [] \<longrightarrow> renderFrame s = s) \<and>
   (k < length (inflight s) \<and>
    evaluate_frame_query (fetch_conn (inflight s ! k)) (fetch_frameId (inflight s ! k))
      (fetch_video (inflight s ! k)) = Inr [] \<longrightarrow>
    pixels (loadFrame_settled k s) = [] \<and> canvasRef (loadFrame_settled k s) = canvasRef s)"
  by (simp add: renderFrame_empty loadFrame_settled_def Let_def)

theorem renderFrame_empty_rows_is_noop_witness:
  "(let before = run [Connect (Inr demo_sparse_conn), QuerySettles 0, Seek 1] initial_player in
      map fetch_frameId (inflight before) = [Num 1] \<and>
      canvas_pixel before (0, 0) = hex_000000 \<and>
      pixels (loadFrame_settled 0 before) = [] \<and>
      canvas_pixel (loadFrame_settled 0 before) (0, 0) = hex_000000)"
proof -
  define before where "before = run [Connect (Inr demo_sparse_conn), QuerySettles 0, Seek 1] initial_player"
  have a: "map fetch_frameId (inflight before) = [Num 1]"
    unfolding before_def by code_simp
  have b: "0 < length (inflight before) \<and>
    evaluate_frame_query (fetch_conn (inflight before ! 0)) (fetch_frameId (inflight before ! 0))
      (fetch_video (inflight before ! 0)) = Inr []"
    unfolding before_def by code_simp
  have c: "canvas_pixel before (0, 0) = hex_000000"
    unfolding before_def by code_simp
  have "pixels (loadFrame_settled 0 before) = [] \<and>
        canvasRef (loadFrame_settled 0 before) = canvasRef before"
    using renderFrame_empty_rows_is_noop [of before 0] b by simp
  then show ?thesis
    using a c unfolding before_def [symmetric] by (simp add: Let_def canvas_pixel_def)
qed

text \<open>
  The empty row set of frame 1 of the sparse video arrives while the canvas shows frame
  0: afterwards the canvas still has a black pixel and a white one, so it is not of one
  colour, whatever the background is taken to be.
\<close>

theorem empty_row_set_counterexample:
  "map fetch_frameId (inflight demo_sparse_waiting) = [Num 1] \<and>
   pixels (loadFrame_settled 0 demo_sparse_waiting) = [] \<and>
   canvas_pixel (loadFrame_settled 0 demo_sparse_waiting) (0, 0) = hex_000000 \<and>
   canvas_pixel (loadFrame_settled 0 demo_sparse_waiting) (4, 0) = hex_FFFFFF \<and>
   \<not> canvas_is_all (loadFrame_settled 0 demo_sparse_waiting) hex_FFFFFF \<and>
   \<not> canvas_is_all (loadFrame_settled 0 demo_sparse_waiting) hex_000000 \<and>
   \<not> canvas_is_all (renderFrame (loadFrame_settled 0 demo_sparse_waiting)) hex_FFFFFF"
  by code_simp

text \<open>
  C3, as the code has it.  With the canvas mounted, the metadata loaded, a row set that is
  not empty, and a width and a height that are positive and, times 4, at most 2147483647
  (so that the canvas has the size \<open>4 * width\<close> by \<open>4 * height\<close>), \<open>renderFrame\<close> first
  fills the whole canvas with white (\<open>#FFFFFF\<close>), in every mode, and then paints the rows
  in order: a device pixel of the canvas whose cell \<open>(column div 4, row div 4)\<close> is the
  position of no row is white afterwards; and a pixel whose cell is the position of a row
  shows the colour of the last such row, provided that row carries the payload its mode
  reads, so that it sets a fill style of its own.  White is what value 0 looks like in
  binary mode only; in grayscale mode value 0 is \<open>rgb(0,0,0)\<close>, and black is no background
  in colour mode either.
\<close>

theorem renderFrame_background_is_white:
  assumes "canvasRef s = Some cv" and "metadata s = Some md" and "pixels s \<noteq> []"
    and "canvasSize s = \<lparr> width = Some w, height = Some h \<rparr>" and "0 < w" and "0 < h"
    and "on_canvas (w * 4) (h * 4) p"
    and "w * 4 \<le> 2147483647" and "h * 4 \<le> 2147483647"
  shows "((\<forall>px \<in> set (pixels s). (px_x px, px_y px) \<noteq> (fst p div 4, snd p div 4)) \<longrightarrow>
            canvas_pixel (renderFrame s) p = hex_FFFFFF) \<and>
         (\<forall>before px after c.
            pixels s = before @ px # after \<and>
            (px_x px, px_y px) = (fst p div 4, snd p div 4) \<and>
            (\<forall>q \<in> set after. (px_x q, px_y q) \<noteq> (fst p div 4, snd p div 4)) \<and>
            pixel_style (mode md) px = Some c \<longrightarrow>
            canvas_pixel (renderFrame s) p = c)"
proof (intro conjI impI allI)
  assume "\<forall>px \<in> set (pixels s). (px_x px, px_y px) \<noteq> (fst p div 4, snd p div 4)"
  then have "\<forall>px \<in> set (pixels s). \<not> in_rect (px_x px * 4) (px_y px * 4) 4 4 p"
    by (simp add: in_rect_cell)
  then show "canvas_pixel (renderFrame s) p = hex_FFFFFF"
    using renderFrame_painted [OF assms(1-6) assms(8,9), of p] assms(5,6,7)
    by (simp add: fold_draw_uncovered white_fill)
next
  fix before px after c
  assume a: "pixels s = before @ px # after \<and>
            (px_x px, px_y px) = (fst p div 4, snd p div 4) \<and>
            (\<forall>q \<in> set after. (px_x q, px_y q) \<noteq> (fst p div 4, snd p div 4)) \<and>
            pixel_style (mode md) px = Some c"
  then have "\<forall>q \<in> set after. \<not> in_rect (px_x q * 4) (px_y q * 4) 4 4 p"
    and "in_rect (px_x px * 4) (px_y px * 4) 4 4 p"
    by (simp_all add: in_rect_cell)
  then show "canvas_pixel (renderFrame s) p = c"
    using renderFrame_painted [OF assms(1-6) assms(8,9), of p] a assms(7)
      fold_draw_last_cover [of "pixels s" before px after 4 p "w * 4" "h * 4" "mode md" c]
    by simp
qed

theorem renderFrame_background_is_white_witness:
  "(let s = run [Connect (Inr demo_gray_conn), QuerySettles 0] initial_player in
      pixels s \<noteq> [] \<and> on_canvas (4 * 4) (2 * 4) (4, 0) \<and> on_canvas (4 * 4) (2 * 4) (13, 5) \<and>
      canvas_pixel (renderFrame s) (4, 0) = hex_FFFFFF \<and>
      canvas_pixel (renderFrame s) (13, 5) = Rgb 200 200 200)"
proof -
  define s where "s = run [Connect (Inr demo_gray_conn), QuerySettles 0] initial_player"
  define p0 where "p0 = \<lparr> px_x = 0, px_y = 0, px_value = Some 0, px_r = None, px_g = None, px_b = None \<rparr>"
  define p1 where "p1 = \<lparr> px_x = 3, px_y = 1, px_value = Some 200, px_r = None, px_g = None, px_b = None \<rparr>"
  have c: "canvasRef s \<noteq> None"
    unfolding s_def by code_simp
  then obtain cv where cv: "canvasRef s = Some cv" by auto
  have m: "metadata s = Some \<lparr> target_width = Some 4, target_height = Some 2, fps = 25, mode = ''grayscale'' \<rparr>"
    unfolding s_def by code_simp
  have px: "pixels s = [p0, p1]"
    unfolding s_def p0_def p1_def by code_simp
  have ne: "pixels s \<noteq> []"
    using px by simp
  have cs: "canvasSize s = \<lparr> width = Some 4, height = Some 2 \<rparr>"
    unfolding s_def by code_simp
  have o1: "on_canvas (4 * 4) (2 * 4) (4, 0)" and o2: "on_canvas (4 * 4) (2 * 4) (13, 5)"
    by (simp_all add: on_canvas_def)
  have "canvas_pixel (renderFrame s) (4, 0) = hex_FFFFFF"
    using renderFrame_background_is_white [OF cv m ne cs _ _ o1] px
    by (simp add: p0_def p1_def)
  moreover have st: "pixel_style ''grayscale'' p1 = Some (Rgb 200 200 200)"
    by (simp add: pixel_style_def p1_def css_channel_def)
  moreover
  have w: "0 < (4::int)" "0 < (2::int)"
    and wb: "(4::int) * 4 \<le> 2147483647" "(2::int) * 4 \<le> 2147483647"
    by simp_all
  have "canvas_pixel (renderFrame s) (13, 5) = Rgb 200 200 200"
    using renderFrame_background_is_white
      [OF cv m ne cs w o2 wb, THEN conjunct2, rule_format, of "[p0]" p1 "[]" "Rgb 200 200 200"]
      px st
    by (simp add: p1_def)
  ultimately show ?thesis
    using ne o1 o2 unfolding s_def [symmetric] by (simp add: Let_def)
qed

text \<open>
  A grayscale frame of 4 by 2 with records at two positions: the pixel of value 0 shows
  \<open>rgb(0,0,0)\<close>, and the cell to its right, which no record covers, shows \<open>#FFFFFF\<close>, not
  the colour of value 0.
\<close>

theorem background_counterexample:
  "map_option mode (metadata demo_gray_shown) = Some ''grayscale'' \<and>
   map px_value (pixels demo_gray_shown) = [Some 0, Some 200] \<and>
   canvas_pixel (renderFrame demo_gray_shown) (0, 0) = Rgb 0 0 0 \<and>
   canvas_pixel (renderFrame demo_gray_shown) (4, 0) = Rgb 255 255 255"
  by code_simp

text \<open>
  C4, as the code has it.  \<open>renderFrame\<close> has no range check and writes nothing to the
  console; a row out of range is painted like any other, and its rectangle lies off the
  canvas.  So, when width and height are positive and, times 4, at most 2147483647 (so
  that the canvas has the size \<open>4 * width\<close> by \<open>4 * height\<close>), and every row carries the
  payload its mode reads: if some row is in range,
  the canvas after \<open>renderFrame\<close> is pixel for pixel the canvas after \<open>renderFrame\<close> on the
  rows in range alone; if no row is in range, the canvas is white all over; no pixel off
  the canvas changes; and the console is what it was.  \<open>renderFrame\<close> has no failing
  branch: it returns a state for every row set.
\<close>

theorem renderFrame_out_of_range_rows_paint_nothing:
  assumes "canvasSize s = \<lparr> width = Some w, height = Some h \<rparr>" and "0 < w" and "0 < h"
    and "metadata s = Some md"
    and "\<forall>px \<in> set (pixels s). pixel_style (mode md) px \<noteq> None"
    and "w * 4 \<le> 2147483647" and "h * 4 \<le> 2147483647"
  shows "(filter (in_range w h) (pixels s) \<noteq> [] \<longrightarrow>
            canvas_pixel (renderFrame s) p =
              canvas_pixel (renderFrame (s\<lparr>pixels := filter (in_range w h) (pixels s)\<rparr>)) p) \<and>
         (pixels s \<noteq> [] \<and> filter (in_range w h) (pixels s) = [] \<and> canvasRef s \<noteq> None \<and>
            on_canvas (w * 4) (h * 4) p \<longrightarrow>
            canvas_pixel (renderFrame s) p = hex_FFFFFF) \<and>
         (\<not> on_canvas (w * 4) (h * 4) p \<longrightarrow> canvas_pixel (renderFrame s) p = canvas_pixel s p) \<and>
         console (renderFrame s) = console s"
proof (cases "canvasRef s")
  case None
  then show ?thesis
    by (simp add: renderFrame_def canvas_pixel_def)
next
  case (Some cv)
  let ?s' = "s\<lparr>pixels := filter (in_range w h) (pixels s)\<rparr>"
  let ?white = "fillRect (w * 4) (h * 4) 0 0 (w * 4) (h * 4) (cv\<lparr>fillStyle := hex_FFFFFF\<rparr>)"
  have skip: "bitmap (fold (draw_pixel (mode md) (w * 4) (h * 4) 4) (pixels s) ?white) =
              bitmap (fold (draw_pixel (mode md) (w * 4) (h * 4) 4)
                        (filter (in_range w h) (pixels s)) ?white)"
    using fold_draw_skips_out_of_range [OF assms(5) refl, of w h] .
  have a: "canvas_pixel (renderFrame s) p = canvas_pixel (renderFrame ?s') p"
    if "filter (in_range w h) (pixels s) \<noteq> []"
  proof -
    have ne: "pixels s \<noteq> []"
      using that by auto
    show ?thesis
      using renderFrame_painted [OF Some assms(4) ne assms(1,2,3) assms(6,7), of p]
        renderFrame_painted [of ?s' cv md w h p] Some assms(1-4) assms(6,7) that skip
      by simp
  qed
  have b: "canvas_pixel (renderFrame s) p = hex_FFFFFF"
    if "pixels s \<noteq> []" and "filter (in_range w h) (pixels s) = []"
      and "on_canvas (w * 4) (h * 4) p"
    using renderFrame_painted [OF Some assms(4) that(1) assms(1,2,3) assms(6,7), of p] skip
      that(2,3) assms(2,3)
    by (simp add: white_fill)
  have "canvas_width s = w * 4" "canvas_height s = h * 4"
    using assms(1,2,3,6,7)
    by (simp_all add: canvas_width_def canvas_height_def canvas_attribute_def js_number_def)
  then have c: "\<not> on_canvas (w * 4) (h * 4) p \<longrightarrow> canvas_pixel (renderFrame s) p = canvas_pixel s p"
    using renderFrame_off_canvas [of s p] by simp
  show ?thesis
    using a b c by (simp add: renderFrame_keeps)
qed

theorem renderFrame_out_of_range_rows_paint_nothing_witness:
  "(let s = run [Connect (Inr demo_stray_conn), QuerySettles 0] initial_player in
      map px_x (pixels s) = [- 1, 1] \<and>
      map px_x (filter (in_range 2 1) (pixels s)) = [1] \<and>
      canvas_pixel (renderFrame s) (4, 0) =
        canvas_pixel (renderFrame (s\<lparr>pixels := filter (in_range 2 1) (pixels s)\<rparr>)) (4, 0) \<and>
      canvas_pixel (renderFrame s) (- 4, 0) = canvas_pixel s (- 4, 0) \<and>
      console (renderFrame s) = [])"
proof -
  define s where "s = run [Connect (Inr demo_stray_conn), QuerySettles 0] initial_player"
  have cs: "canvasSize s = \<lparr> width = Some 2, height = Some 1 \<rparr>"
    unfolding s_def by code_simp
  have m: "metadata s = Some \<lparr> target_width = Some 2, target_height = Some 1, fps = 25, mode = ''binary'' \<rparr>"
    unfolding s_def by code_simp
  have st: "\<forall>px \<in> set (pixels s). pixel_style ''binary'' px \<noteq> None"
    by (simp add: pixel_style_def)
  have px: "map px_x (pixels s) = [- 1, 1]" "map px_x (filter (in_range 2 1) (pixels s)) = [1]"
    unfolding s_def by code_simp+
  have ne: "filter (in_range 2 1) (pixels s) \<noteq> []"
    using px(2) by auto
  have co: "console s = []"
    unfolding s_def by code_simp
  have off: "\<not> on_canvas (2 * 4) (1 * 4) (- 4, 0)"
    by (simp add: on_canvas_def)
  have w: "0 < (2::int)" "0 < (1::int)"
    and wb: "(2::int) * 4 \<le> 2147483647" "(1::int) * 4 \<le> 2147483647"
    by simp_all
  have st': "\<forall>px \<in> set (pixels s). pixel_style (mode \<lparr> target_width = Some 2, target_height = Some 1,
      fps = 25, mode = ''binary'' \<rparr>) px \<noteq> None"
    using st by simp
  note t = renderFrame_out_of_range_rows_paint_nothing [OF cs w m st' wb]
  have a: "canvas_pixel (renderFrame s) (4, 0) =
        canvas_pixel (renderFrame (s\<lparr>pixels := filter (in_range 2 1) (pixels s)\<rparr>)) (4, 0)"
    using t [of "(4, 0)", THEN conjunct1] ne by simp
  have b: "canvas_pixel (renderFrame s) (- 4, 0) = canvas_pixel s (- 4, 0)"
    using t [of "(- 4, 0)", THEN conjunct2, THEN conjunct2, THEN conjunct1] off by simp
  have c: "console (renderFrame s) = console s"
    using t [of "(4, 0)", THEN conjunct2, THEN conjunct2, THEN conjunct2] .
  show ?thesis
    using a b c px co unfolding s_def [symmetric] by (simp add: Let_def)
qed

text \<open>
  A frame with a record at column \<open>-1\<close> is rendered, the record in range is painted, and
  the console is empty: nothing is logged for the row out of range.
\<close>

theorem out_of_range_counterexample:
  "canvasSize demo_stray_shown = \<lparr> width = Some 2, height = Some 1 \<rparr> \<and>
   map px_x (pixels demo_stray_shown) = [- 1, 1] \<and>
   \<not> in_range 2 1 (hd (pixels demo_stray_shown)) \<and>
   canvas_pixel (renderFrame demo_stray_shown) (4, 0) = hex_000000 \<and>
   console demo_stray_shown = [] \<and>
   console (renderFrame demo_stray_shown) = []"
  by code_simp

section \<open>Frame queries in flight\<close>

lemma loadFrame_settled_fulfilled:
  assumes "k < length (inflight s)"
    and "evaluate_frame_query (fetch_conn (inflight s ! k)) (fetch_frameId (inflight s ! k))
           (fetch_video (inflight s ! k)) = Inr rows"
  shows "loadFrame_settled k s =
           renderFrame (s\<lparr>inflight := take k (inflight s) @ drop (Suc k) (inflight s),
                          pixels := rows\<rparr>)"
  using assms by (simp add: loadFrame_settled_def Let_def)

lemma settled_in_order:
  assumes "inflight s = fs" and "fs \<noteq> []"
    and "\<forall>f \<in> set fs. evaluate_frame_query (fetch_conn f) (fetch_frameId f) (fetch_video f) = Inr (r f)"
  shows "pixels ((loadFrame_settled 0 ^^ length fs) s) = r (last fs)"
  using assms
proof (induction fs arbitrary: s)
  case Nil
  then show ?case by simp
next
  case (Cons f fs)
  let ?s = "loadFrame_settled 0 s"
  have s: "?s = renderFrame (s\<lparr>inflight := fs, pixels := r f\<rparr>)"
    using loadFrame_settled_fulfilled [of 0 s "r f"] Cons.prems by simp
  then have i: "inflight ?s = fs" and p: "pixels ?s = r f"
    by (simp_all add: renderFrame_keeps)
  have u: "(loadFrame_settled 0 ^^ length (f # fs)) s = (loadFrame_settled 0 ^^ length fs) ?s"
    by (simp add: funpow_swap1)
  show ?case
  proof (cases "fs = []")
    case True
    then show ?thesis using p u by simp
  next
    case False
    then show ?thesis
      using Cons.IH [OF i False] Cons.prems(3) u by simp
  qed
qed

text \<open>
  C1, as the code has it.  \<open>loadFrame\<close> carries no request token and discards no answer.
  When the queries in flight are answered, the answer to any of them, whichever position
  it has among them and newer queries in flight or not, is stored in \<open>pixels\<close> when it
  arrives and \<open>renderFrame\<close> is run on it; and if the answers arrive in the order in which
  the queries were sent, then \<open>pixels\<close> holds the rows of the query sent last once all
  have arrived.
\<close>

theorem frame_results_are_applied_as_they_arrive:
  assumes "inflight s = fs"
    and "\<forall>f \<in> set fs. evaluate_frame_query (fetch_conn f) (fetch_frameId f) (fetch_video f) = Inr (r f)"
  shows "(\<forall>k < length fs.
            loadFrame_settled k s =
              renderFrame (s\<lparr>inflight := take k fs @ drop (Suc k) fs, pixels := r (fs ! k)\<rparr>)) \<and>
         (fs \<noteq> [] \<longrightarrow> pixels ((loadFrame_settled 0 ^^ length fs) s) = r (last fs))"
proof (intro conjI allI impI)
  fix k
  assume "k < length fs"
  then show "loadFrame_settled k s =
      renderFrame (s\<lparr>inflight := take k fs @ drop (Suc k) fs, pixels := r (fs ! k)\<rparr>)"
    using loadFrame_settled_fulfilled [of k s "r (fs ! k)"] assms by simp
next
  assume "fs \<noteq> []"
  then show "pixels ((loadFrame_settled 0 ^^ length fs) s) = r (last fs)"
    using settled_in_order [OF assms(1) _ assms(2)] by simp
qed

text \<open>
  The frames 3 and 5 of video \<open>a\<close> are requested in this order while the query for frame 0
  is in flight.  If the answer for frame 3 arrives first, frame 3 is rendered although the
  query for frame 5 is newer and in flight; if the answer for frame 5 arrives first and
  that for frame 3 after it, the canvas ends on frame 3 with the index at 5.
\<close>

theorem last_request_wins_counterexample:
  "map fetch_frameId (inflight demo_two_seeks) = [Num 0, Num 3, Num 5] \<and>
   currentFrame demo_two_seeks = Num 5 \<and>
   map px_x (demo_frame_rows 3) = [0] \<and> map px_x (demo_frame_rows 5) = [2] \<and>
   map fetch_frameId (inflight (run [QuerySettles 1] demo_two_seeks)) = [Num 0, Num 5] \<and>
   pixels (run [QuerySettles 1] demo_two_seeks) = demo_frame_rows 3 \<and>
   canvas_pixel (run [QuerySettles 1] demo_two_seeks) (0, 0) = hex_000000 \<and>
   canvas_pixel (run [QuerySettles 1] demo_two_seeks) (8, 0) = hex_FFFFFF \<and>
   map fetch_frameId (inflight (run [QuerySettles 2, QuerySettles 1] demo_two_seeks)) = [Num 0] \<and>
   pixels (run [QuerySettles 2, QuerySettles 1] demo_two_seeks) = demo_frame_rows 3 \<and>
   canvas_pixel (run [QuerySettles 2, QuerySettles 1] demo_two_seeks) (0, 0) = hex_000000 \<and>
   canvas_pixel (run [QuerySettles 2, QuerySettles 1] demo_two_seeks) (8, 0) = hex_FFFFFF"
  by code_simp

theorem frame_results_are_applied_as_they_arrive_witness:
  "(let s = run [Connect (Inr demo_conn), Seek 3, Seek 5] initial_player in
      map fetch_frameId (inflight s) = [Num 0, Num 3, Num 5] \<and>
      pixels (loadFrame_settled 1 s) = demo_frame_rows 3 \<and>
      pixels ((loadFrame_settled 0 ^^ 3) s) = demo_frame_rows 5)"
proof -
  define s where "s = run [Connect (Inr demo_conn), Seek 3, Seek 5] initial_player"
  define r :: "fetch \<Rightarrow> pixel list"
    where "r = (\<lambda>f. case fetch_frameId f of Num n \<Rightarrow> demo_frame_rows n | NaN \<Rightarrow> [])"
  define f0 where "f0 = \<lparr> fetch_conn = demo_conn, fetch_frameId = Num 0, fetch_video = ''a'' \<rparr>"
  define f3 where "f3 = \<lparr> fetch_conn = demo_conn, fetch_frameId = Num 3, fetch_video = ''a'' \<rparr>"
  define f5 where "f5 = \<lparr> fetch_conn = demo_conn, fetch_frameId = Num 5, fetch_video = ''a'' \<rparr>"
  have i: "inflight s = [f0, f3, f5]"
    unfolding s_def f0_def f3_def f5_def by code_simp
  have q: "frame_query demo_table 0 ''a'' = Inr (demo_frame_rows 0)"
    "frame_query demo_table 3 ''a'' = Inr (demo_frame_rows 3)"
    "frame_query demo_table 5 ''a'' = Inr (demo_frame_rows 5)"
    by code_simp+
  have e: "\<forall>f \<in> set [f0, f3, f5].
             evaluate_frame_query (fetch_conn f) (fetch_frameId f) (fetch_video f) = Inr (r f)"
    by (simp add: f0_def f3_def f5_def r_def evaluate_frame_query_def evaluateQuery_def
        demo_conn_def q)
  note t = frame_results_are_applied_as_they_arrive [OF i e]
  have "loadFrame_settled 1 s =
          renderFrame (s\<lparr>inflight := take 1 [f0, f3, f5] @ drop (Suc 1) [f0, f3, f5],
                         pixels := r ([f0, f3, f5] ! 1)\<rparr>)"
    using t [THEN conjunct1, rule_format, of 1] by simp
  then have a: "pixels (loadFrame_settled 1 s) = demo_frame_rows 3"
    by (simp add: renderFrame_keeps r_def f3_def)
  have "pixels ((loadFrame_settled 0 ^^ length [f0, f3, f5]) s) = r (last [f0, f3, f5])"
    using t [THEN conjunct2] by simp
  then have b: "pixels ((loadFrame_settled 0 ^^ 3) s) = demo_frame_rows 5"
    by (simp add: r_def f5_def numeral_3_eq_3)
  have c: "map fetch_frameId (inflight s) = [Num 0, Num 3, Num 5]"
    using i by (simp add: f0_def f3_def f5_def)
  show ?thesis
    using a b c unfolding s_def [symmetric] by (simp add: Let_def)
qed

section \<open>Rejecting a configuration\<close>

text \<open>
  C9.  A configuration with \<open>target_width < 16\<close>, or \<open>target_height < 9\<close>, or a threshold
  outside \<open>0..255\<close>, or a mode other than binary, grayscale and color is rejected with
  \<open>ConfigError\<close>, and the encode job on it ends in \<open>ConfigError\<close> whatever the frames and
  the frame encoder are: no frame is processed.
\<close>

theorem invalid_config_is_rejected:
  assumes "cfg_target_width c < 16 \<or> cfg_target_height c < 9 \<or>
           cfg_threshold c < 0 \<or> 255 < cfg_threshold c \<or>
           cfg_mode c \<notin> {''binary'', ''grayscale'', ''color''}"
  shows "check_config c = Inl ConfigError \<and> encode_video encode c frames = Inl ConfigError"
proof -
  have "\<not> config_valid c"
    using assms by (auto simp: config_valid_def)
  then show ?thesis
    by (simp add: check_config_def encode_video_def)
qed

theorem invalid_config_is_rejected_witness:
  "cfg_target_width demo_narrow_config = 8 \<and>
   check_config demo_narrow_config = Inl ConfigError \<and>
   encode_video (\<lambda>c f. [f]) demo_narrow_config [1::nat, 2, 3] = Inl ConfigError"
proof -
  have "cfg_target_width demo_narrow_config = 8"
    by (simp add: demo_narrow_config_def)
  then show ?thesis
    using invalid_config_is_rejected [of demo_narrow_config "\<lambda>c f. [f]" "[1::nat, 2, 3]"]
    by simp
qed

end
